theory Spec2Isabelle
  imports Main "HOL-Library.Sublist" "HOL-Library.AList"
begin

chapter \<open>SQLite2MySQL: the migration engine of migrate.py and backend/main.py\<close>

text \<open>
  The development follows the two entry points of the repository: the command line
  migrator (\<^verbatim>\<open>migrate.py\<close>: classes TypeMapper, DuplicateResolver, Validator, Migrator)
  and the background task of the web backend (\<^verbatim>\<open>backend/main.py\<close>: TypeMapper and
  \<^verbatim>\<open>run_migration_task\<close>). Python strings are modelled as \<^typ>\<open>string\<close>, with the
  ASCII letters as the only cased characters; Python's \<^verbatim>\<open>key in s\<close> on strings is
  \<^const>\<open>sublist\<close> (contiguous containment).
\<close>

section \<open>Strings\<close>

definition upper_char :: "char \<Rightarrow> char" where
  "upper_char c =
     (case map_of (zip ''abcdefghijklmnopqrstuvwxyz'' ''ABCDEFGHIJKLMNOPQRSTUVWXYZ'') c of
        Some d \<Rightarrow> d
      | None \<Rightarrow> c)"

text \<open>\<^verbatim>\<open>str.upper\<close>, on ASCII text.\<close>

definition upper :: "string \<Rightarrow> string" where
  "upper s = map upper_char s"

text \<open>\<^verbatim>\<open>sep.join(xs)\<close>.\<close>

fun join :: "string \<Rightarrow> string list \<Rightarrow> string" where
  "join sep [] = []"
| "join sep [x] = x"
| "join sep (x # y # ys) = x @ sep @ join sep (y # ys)"

text \<open>\<^verbatim>\<open>s.startswith(q)\<close>, \<^verbatim>\<open>s.endswith(q)\<close> for a one-character \<open>q\<close>, and \<^verbatim>\<open>s.isdigit()\<close>.\<close>

definition startswith :: "string \<Rightarrow> char \<Rightarrow> bool" where
  "startswith s q = (case s of [] \<Rightarrow> False | c # _ \<Rightarrow> c = q)"

definition endswith :: "string \<Rightarrow> char \<Rightarrow> bool" where
  "endswith s q = (case rev s of [] \<Rightarrow> False | c # _ \<Rightarrow> c = q)"

definition isdigit :: "string \<Rightarrow> bool" where
  "isdigit s = (s \<noteq> [] \<and> list_all (\<lambda>c. c \<in> set ''0123456789'') s)"

section \<open>TypeMapper\<close>

text \<open>
  The class attribute \<^verbatim>\<open>TypeMapper.MAPPING\<close>, a dict literal; \<^verbatim>\<open>MAPPING.items()\<close>
  iterates it in the order of the literal. Both files hold the same table.
\<close>

definition MAPPING :: "(string \<times> string) list" where
  "MAPPING =
    [(''INTEGER'', ''INT''),
     (''INT'', ''INT''),
     (''TINYINT'', ''TINYINT''),
     (''SMALLINT'', ''SMALLINT''),
     (''MEDIUMINT'', ''MEDIUMINT''),
     (''BIGINT'', ''BIGINT''),
     (''UNSIGNED BIG INT'', ''BIGINT UNSIGNED''),
     (''INT2'', ''SMALLINT''),
     (''INT8'', ''BIGINT''),
     (''TEXT'', ''LONGTEXT''),
     (''CLOB'', ''LONGTEXT''),
     (''BLOB'', ''LONGBLOB''),
     (''REAL'', ''DOUBLE''),
     (''DOUBLE'', ''DOUBLE''),
     (''DOUBLE PRECISION'', ''DOUBLE''),
     (''FLOAT'', ''FLOAT''),
     (''NUMERIC'', ''DECIMAL(10,5)''),
     (''BOOLEAN'', ''BOOLEAN''),
     (''DATETIME'', ''DATETIME''),
     (''DATE'', ''DATE''),
     (''VARCHAR'', ''VARCHAR''),
     (''NVARCHAR'', ''VARCHAR''),
     (''CHARACTER'', ''CHAR'')]"

text \<open>
  \<^verbatim>\<open>TypeMapper.map_type\<close> of migrate.py (lines 103-118). The loop
  \<^verbatim>\<open>for key, value in MAPPING.items(): if key in sqlite_type: return value\<close> is
  \<^const>\<open>find\<close> on the table; the parameters \<open>column_name\<close> and \<open>table_name\<close> are unused
  by the source as well.
\<close>

definition map_type :: "string \<Rightarrow> string \<Rightarrow> string \<Rightarrow> string" where
  "map_type sqlite_type column_name table_name =
     (let sqlite_type = upper sqlite_type in
      if sublist ''VARCHAR'' sqlite_type then
        (if \<not> sublist ''('' sqlite_type then ''VARCHAR(255)'' else sqlite_type)
      else
        (case find (\<lambda>(key, v). sublist key sqlite_type) MAPPING of
           Some (key, v) \<Rightarrow> v
         | None \<Rightarrow> ''LONGTEXT''))"

text \<open>\<^verbatim>\<open>TypeMapper.map_type\<close> of backend/main.py (lines 72-82): one parameter, same body.\<close>

definition backend_map_type :: "string \<Rightarrow> string" where
  "backend_map_type sqlite_type =
     (let sqlite_type = upper sqlite_type in
      if sublist ''VARCHAR'' sqlite_type then
        (if \<not> sublist ''('' sqlite_type then ''VARCHAR(255)'' else sqlite_type)
      else
        (case find (\<lambda>(key, v). sublist key sqlite_type) MAPPING of
           Some (key, v) \<Rightarrow> v
         | None \<Rightarrow> ''LONGTEXT''))"

section \<open>Schema descriptors\<close>

text \<open>
  A row of \<^verbatim>\<open>PRAGMA table_info\<close> as \<^verbatim>\<open>get_table_schema\<close> returns it (keys cid, name,
  type, notnull, dflt_value, pk). \<open>notnull\<close> and \<open>pk\<close> are SQLite integers, tested by
  Python truthiness; \<open>dflt_value\<close> is \<^verbatim>\<open>None\<close> or the default's source text.
\<close>

record column =
  col_cid :: int
  col_name :: string
  col_type :: string
  col_notnull :: int
  col_dflt_value :: "string option"
  col_pk :: int

text \<open>An entry of \<^verbatim>\<open>get_indexes\<close> (keys name, unique, columns).\<close>

record index =
  idx_name :: string
  idx_unique :: int
  idx_columns :: "string list"

section \<open>DDL synthesis: the CREATE TABLE text\<close>

text \<open>The pieces of one column definition, migrate.py lines 281-306.\<close>

definition null_str :: "column \<Rightarrow> string" where
  "null_str col = (if col_notnull col \<noteq> 0 then ''NOT NULL'' else ''NULL'')"

definition default_str :: "column \<Rightarrow> string" where
  "default_str col =
     (case col_dflt_value col of
        None \<Rightarrow> ''''
      | Some dflt \<Rightarrow>
          if upper dflt = ''CURRENT_TIMESTAMP'' then ''DEFAULT CURRENT_TIMESTAMP''
          else if startswith dflt (CHR 0x27) \<and> endswith dflt (CHR 0x27) then ''DEFAULT '' @ dflt
          else if isdigit dflt then ''DEFAULT '' @ dflt
          else '''')"

definition extra :: "column \<Rightarrow> string \<Rightarrow> string" where
  "extra col mysql_type =
     (if col_pk col \<noteq> 0 \<and> sublist ''INT'' (upper mysql_type) then ''AUTO_INCREMENT'' else '''')"

text \<open>
  The f-string appended to \<^verbatim>\<open>mysql_cols\<close> at line 306:
  \<^verbatim>\<open>`{name}` {mysql_type} {null_str} {default_str} {extra}\<close>.
\<close>

definition mysql_col :: "string \<Rightarrow> column \<Rightarrow> string" where
  "mysql_col table_name col =
     (let mysql_type = map_type (col_type col) (col_name col) table_name in
      ''`'' @ col_name col @ ''` '' @ mysql_type @ '' '' @ null_str col @ '' ''
        @ default_str col @ '' '' @ extra col mysql_type)"

text \<open>Both branches of lines 300-304 append the name of a primary-key column.\<close>

definition pk_cols :: "column list \<Rightarrow> string list" where
  "pk_cols columns = map col_name (filter (\<lambda>col. col_pk col \<noteq> 0) columns)"



text \<open>
  The same synthesis in \<^verbatim>\<open>run_migration_task\<close> of backend/main.py (lines 158-173): no
  default clause, and the primary-key names are back-quoted when collected (line 168) and
  again when joined (line 172).
\<close>

definition backend_mysql_col :: "column \<Rightarrow> string" where
  "backend_mysql_col col =
     (let m_type = backend_map_type (col_type col) in
      ''`'' @ col_name col @ ''` '' @ m_type @ '' '' @ null_str col @ '' '' @ extra col m_type)"



text \<open>
  A table with the composite primary key \<^verbatim>\<open>PRIMARY KEY (a, b)\<close> over two INTEGER
  columns, as \<^verbatim>\<open>PRAGMA table_info\<close> reports it (pk holds the position in the key).
\<close>

definition composite_pk_columns :: "column list" where
  "composite_pk_columns =
     [\<lparr>col_cid = 0, col_name = ''a'', col_type = ''INTEGER'', col_notnull = 0,
       col_dflt_value = None, col_pk = 1\<rparr>,
      \<lparr>col_cid = 1, col_name = ''b'', col_type = ''INTEGER'', col_notnull = 0,
       col_dflt_value = None, col_pk = 2\<rparr>]"

section \<open>The source database\<close>

text \<open>
  The model of the SQLite file the analyzer is connected to. A stored value is NULL, an
  integer or a text (REAL and BLOB values are not modelled). A row has its intrinsic
  \<open>rowid\<close> and its cells in the order of the table's columns; a row with fewer cells than
  the table has columns reads as NULL in the missing ones. A table carries what the PRAGMA
  statements report about it (\<open>table_info\<close>, \<open>index_list\<close> with \<open>index_info\<close>), its rows in
  scan order, and whether it has a rowid (\<open>False\<close> for a WITHOUT ROWID table). Names are
  compared exactly. The word \<open>rowid\<close> in a statement stands for the intrinsic row identifier:
  a table that declares a column of that name is not modelled.
\<close>

datatype val = Null | IntV int | TextV string

record row =
  rowid :: int
  cells :: "val list"

record table =
  tbl_columns :: "column list"
  tbl_indexes :: "index list"
  tbl_rows :: "row list"
  tbl_has_rowid :: bool

text \<open>
  The exceptions of the model: \<^verbatim>\<open>sqlite3.OperationalError\<close> (unknown table or column),
  \<^verbatim>\<open>sqlite3.ProgrammingError\<close> (wrong number of bindings), Python's TypeError,
  IndexError and KeyError, and \<open>DatabaseError\<close> for anything the MySQL connector raises.
\<close>

datatype error =
  OperationalError | ProgrammingError | TypeError | IndexError | KeyError | DatabaseError

type_synonym database = "(string \<times> table) list"

text \<open>
  The source splices names into the statement texts: between single quotes in the PRAGMA
  statements (\<^verbatim>\<open>PRAGMA table_info('{table_name}')\<close>), between back quotes everywhere else
  (\<^verbatim>\<open>SELECT * FROM `{table_name}`\<close>). A name that holds the delimiter ends the quoted part
  early, and SQLite rejects the statement with \<^verbatim>\<open>OperationalError\<close> (for a table named
  \<open>o'brien\<close>: a syntax error near \<open>brien\<close>). The model rejects every name that holds the
  delimiter; it does not single out the names in which the text after the delimiter happens
  to be well-formed (a doubled delimiter, or a delimiter followed by a comment).
\<close>

definition no_quote :: "string \<Rightarrow> bool" where
  "no_quote name = (CHR 0x27 \<notin> set name)"

definition no_backquote :: "string \<Rightarrow> bool" where
  "no_backquote name = (CHR 0x60 \<notin> set name)"

definition col_names :: "table \<Rightarrow> string list" where
  "col_names tb = map col_name (tbl_columns tb)"

definition col_pos :: "table \<Rightarrow> string \<Rightarrow> nat" where
  "col_pos tb c = length (takeWhile (\<lambda>x. x \<noteq> c) (col_names tb))"

definition cell :: "table \<Rightarrow> row \<Rightarrow> string \<Rightarrow> val" where
  "cell tb r c = (if col_pos tb c < length (cells r) then cells r ! col_pos tb c else Null)"

definition set_cell :: "table \<Rightarrow> string \<Rightarrow> val \<Rightarrow> row \<Rightarrow> row" where
  "set_cell tb c v r =
     r\<lparr>cells := (cells r @ replicate (length (col_names tb) - length (cells r)) Null)[col_pos tb c := v]\<rparr>"

definition key_of :: "table \<Rightarrow> string list \<Rightarrow> row \<Rightarrow> val list" where
  "key_of tb cols r = map (cell tb r) cols"

text \<open>
  The WHERE clauses of the source, one \<open>cond\<close> per conjunct of the statement text:
  \<^verbatim>\<open>`c` = ?\<close>, \<^verbatim>\<open>`c` IS NULL\<close>, \<^verbatim>\<open>rowid != ?\<close> and \<^verbatim>\<open>rowid = ?\<close>. Each \<^verbatim>\<open>?\<close> takes
  the next parameter; a comparison with NULL is not true.
\<close>

datatype cond = Eq string | IsNull string | RowidNe | RowidEq

fun placeholders :: "cond \<Rightarrow> nat" where
  "placeholders (Eq c) = 1"
| "placeholders (IsNull c) = 0"
| "placeholders RowidNe = 1"
| "placeholders RowidEq = 1"

fun cond_ok :: "table \<Rightarrow> cond \<Rightarrow> bool" where
  "cond_ok tb (Eq c) = (c \<in> set (col_names tb) \<and> no_backquote c)"
| "cond_ok tb (IsNull c) = (c \<in> set (col_names tb) \<and> no_backquote c)"
| "cond_ok tb RowidNe = tbl_has_rowid tb"
| "cond_ok tb RowidEq = tbl_has_rowid tb"

fun holds :: "table \<Rightarrow> row \<Rightarrow> cond list \<Rightarrow> val list \<Rightarrow> bool" where
  "holds tb r [] ps = True"
| "holds tb r (IsNull c # cs) ps = (cell tb r c = Null \<and> holds tb r cs ps)"
| "holds tb r (Eq c # cs) (p # ps) = (p \<noteq> Null \<and> cell tb r c = p \<and> holds tb r cs ps)"
| "holds tb r (RowidNe # cs) (p # ps) = (p \<noteq> Null \<and> IntV (rowid r) \<noteq> p \<and> holds tb r cs ps)"
| "holds tb r (RowidEq # cs) (p # ps) = (IntV (rowid r) = p \<and> holds tb r cs ps)"
| "holds tb r (Eq c # cs) [] = False"
| "holds tb r (RowidNe # cs) [] = False"
| "holds tb r (RowidEq # cs) [] = False"

text \<open>
  What \<^verbatim>\<open>cursor.execute(sql, params)\<close> checks before it runs a statement on table \<open>t\<close>:
  the text parses (no name in it holds a back quote), the table and every named column
  exist and \<open>rowid\<close> is available where it is used (otherwise \<^verbatim>\<open>OperationalError\<close>), then
  the number of parameters equals the number of
  \<^verbatim>\<open>?\<close> in the text, \<open>n\<close> of them before the WHERE clause (otherwise
  \<^verbatim>\<open>ProgrammingError\<close>: Incorrect number of bindings supplied).
\<close>

definition prepare :: "database \<Rightarrow> string \<Rightarrow> string list \<Rightarrow> bool \<Rightarrow> nat \<Rightarrow> cond list \<Rightarrow> val list \<Rightarrow> error + table" where
  "prepare db t cols uses_rowid n conds ps =
     (case map_of db t of
        None \<Rightarrow> Inl OperationalError
      | Some tb \<Rightarrow>
          if \<not> (no_backquote t \<and> list_all (\<lambda>c. c \<in> set (col_names tb) \<and> no_backquote c) cols
                \<and> (if uses_rowid then tbl_has_rowid tb else True)
                \<and> list_all (cond_ok tb) conds)
          then Inl OperationalError
          else if n + sum_list (map placeholders conds) \<noteq> length ps then Inl ProgrammingError
          else Inr tb)"

definition lowest :: "int list \<Rightarrow> int option" where
  "lowest xs = (case xs of [] \<Rightarrow> None | x # ys \<Rightarrow> Some (fold min ys x))"

text \<open>
  \<^verbatim>\<open>SELECT cols, COUNT(*) FROM `t` GROUP BY cols HAVING COUNT(*) > 1\<close>: one tuple per
  value combination that occurs more than once, its count last. GROUP BY puts NULLs in
  one group. SQL leaves the order of the groups open; the model fixes one.
\<close>

definition select_group_having :: "database \<Rightarrow> string \<Rightarrow> string list \<Rightarrow> error + val list list" where
  "select_group_having db t cols =
     (case prepare db t cols False 0 [] [] of
        Inl e \<Rightarrow> Inl e
      | Inr tb \<Rightarrow>
          (let ks = map (key_of tb cols) (tbl_rows tb) in
           Inr (map (\<lambda>k. k @ [IntV (int (count_list ks k))])
                  (filter (\<lambda>k. 1 < count_list ks k) (remdups ks)))))"

text \<open>
  \<^verbatim>\<open>SELECT rowid FROM `t` WHERE ... ORDER BY rowid ASC LIMIT 1\<close> with \<^verbatim>\<open>fetchone()\<close>,
  \<^verbatim>\<open>SELECT rowid FROM `t` WHERE ...\<close> with \<^verbatim>\<open>fetchall()\<close>,
  \<^verbatim>\<open>DELETE FROM `t` WHERE ...\<close> with \<^verbatim>\<open>cursor.rowcount\<close>,
  \<^verbatim>\<open>SELECT `c` FROM `t` WHERE ...\<close>, \<^verbatim>\<open>UPDATE `t` SET `c` = ? WHERE ...\<close> and
  \<^verbatim>\<open>SELECT COUNT(*) FROM `t`\<close>.
\<close>

definition select_rowid_first :: "database \<Rightarrow> string \<Rightarrow> cond list \<Rightarrow> val list \<Rightarrow> error + int option" where
  "select_rowid_first db t conds ps =
     (case prepare db t [] True 0 conds ps of
        Inl e \<Rightarrow> Inl e
      | Inr tb \<Rightarrow> Inr (lowest (map rowid (filter (\<lambda>r. holds tb r conds ps) (tbl_rows tb)))))"

definition select_rowid :: "database \<Rightarrow> string \<Rightarrow> cond list \<Rightarrow> val list \<Rightarrow> error + int list" where
  "select_rowid db t conds ps =
     (case prepare db t [] True 0 conds ps of
        Inl e \<Rightarrow> Inl e
      | Inr tb \<Rightarrow> Inr (map rowid (filter (\<lambda>r. holds tb r conds ps) (tbl_rows tb))))"

definition delete_from :: "database \<Rightarrow> string \<Rightarrow> cond list \<Rightarrow> val list \<Rightarrow> error + database \<times> nat" where
  "delete_from db t conds ps =
     (case prepare db t [] False 0 conds ps of
        Inl e \<Rightarrow> Inl e
      | Inr tb \<Rightarrow>
          Inr (AList.update t (tb\<lparr>tbl_rows := filter (\<lambda>r. \<not> holds tb r conds ps) (tbl_rows tb)\<rparr>) db,
               length (filter (\<lambda>r. holds tb r conds ps) (tbl_rows tb))))"

definition select_column :: "database \<Rightarrow> string \<Rightarrow> string \<Rightarrow> cond list \<Rightarrow> val list \<Rightarrow> error + val list" where
  "select_column db t c conds ps =
     (case prepare db t [c] False 0 conds ps of
        Inl e \<Rightarrow> Inl e
      | Inr tb \<Rightarrow> Inr (map (\<lambda>r. cell tb r c) (filter (\<lambda>r. holds tb r conds ps) (tbl_rows tb))))"

definition update_set :: "database \<Rightarrow> string \<Rightarrow> string \<Rightarrow> cond list \<Rightarrow> val list \<Rightarrow> error + database" where
  "update_set db t c conds ps =
     (case prepare db t [c] False 1 conds ps of
        Inl e \<Rightarrow> Inl e
      | Inr tb \<Rightarrow>
          Inr (AList.update t
                 (tb\<lparr>tbl_rows := map (\<lambda>r. if holds tb r conds (tl ps) then set_cell tb c (hd ps) r else r)
                                   (tbl_rows tb)\<rparr>) db))"


text \<open>\<^verbatim>\<open>str(v)\<close> of a fetched value, as the f-strings format it.\<close>

fun digits :: "nat \<Rightarrow> string" where
  "digits n = (if n < 10 then [''0123456789'' ! n] else digits (n div 10) @ [''0123456789'' ! (n mod 10)])"

definition str_int :: "int \<Rightarrow> string" where
  "str_int i = (if i < 0 then ''-'' @ digits (nat (- i)) else digits (nat i))"

fun py_str :: "val \<Rightarrow> string" where
  "py_str Null = ''None''"
| "py_str (IntV i) = str_int i"
| "py_str (TextV s) = s"


section \<open>DuplicateResolver\<close>

text \<open>
  The entries of \<^verbatim>\<open>resolutions\<close> and of the logger hold the arguments of the f-strings of
  the source, not their text: \<open>Removed n t vals\<close> is line 190, \<open>Renamed t orig new\<close> line
  204, \<open>Warning_found\<close> line 172, \<open>Info_removed\<close> line 189, \<open>Error_resolving\<close> line 206,
  \<open>Warning_index\<close> line 330, \<open>Info_index_retry\<close> line 332, \<open>Error_insert\<close> line 366,
  \<open>Warning_count\<close> line 394, \<open>Error_failed\<close> line 411. The messages that only announce
  a phase (lines 269, 376, 383, 389, 404, 452) are not recorded.
\<close>

datatype resolution = Removed nat string "val list" | Renamed string val string

datatype log_entry =
    Warning_found nat string "string list"
  | Info_removed nat string "val list"
  | Error_resolving string error
  | Warning_index string string error
  | Info_index_retry string
  | Error_insert string error
  | Warning_count string
  | Error_failed error

text \<open>
  The state \<^verbatim>\<open>DuplicateResolver\<close> works on: the database behind \<^verbatim>\<open>analyzer.cursor\<close>, the
  number of \<^verbatim>\<open>analyzer.conn.commit()\<close> calls, and what the logger received.
\<close>

record state =
  st_tables :: database
  st_commits :: nat
  st_log :: "log_entry list"

text \<open>
  \<^verbatim>\<open>get_table_schema\<close> (lines 35-47) and \<^verbatim>\<open>get_indexes\<close> (lines 49-62). The PRAGMA
  statements return no row for a table that does not exist, and raise when the name between
  the single quotes holds one. \<^verbatim>\<open>get_indexes\<close> runs \<^verbatim>\<open>PRAGMA index_list\<close> with the name
  of the table and then \<^verbatim>\<open>PRAGMA index_info\<close> with the name of each index, in order.
\<close>

definition get_table_schema :: "state \<Rightarrow> string \<Rightarrow> error + column list" where
  "get_table_schema st table_name =
     (if \<not> no_quote table_name then Inl OperationalError
      else case map_of (st_tables st) table_name of
             None \<Rightarrow> Inr []
           | Some tb \<Rightarrow> Inr (tbl_columns tb))"

definition get_indexes :: "state \<Rightarrow> string \<Rightarrow> error + index list" where
  "get_indexes st table_name =
     (if \<not> no_quote table_name then Inl OperationalError
      else case map_of (st_tables st) table_name of
             None \<Rightarrow> Inr []
           | Some tb \<Rightarrow>
               if list_all (\<lambda>idx. no_quote (idx_name idx)) (tbl_indexes tb) then Inr (tbl_indexes tb)
               else Inl OperationalError)"

text \<open>
  \<^verbatim>\<open>find_duplicates\<close>, lines 125-135: only \<^verbatim>\<open>sqlite3.OperationalError\<close> is caught.
\<close>

definition find_duplicates :: "state \<Rightarrow> string \<Rightarrow> string list \<Rightarrow> error + val list list" where
  "find_duplicates st table_name unique_cols =
     (if unique_cols = [] then Inr []
      else case select_group_having (st_tables st) table_name unique_cols of
             Inl OperationalError \<Rightarrow> Inr []
           | Inl e \<Rightarrow> Inl e
           | Inr rows \<Rightarrow> Inr rows)"

definition common_grafana_unique :: "(string \<times> string list list) list" where
  "common_grafana_unique =
     [(''user'', [[''login''], [''email'']]),
      (''dashboard'', [[''uid''], [''slug'', ''org_id'']]),
      (''org'', [[''name'']]),
      (''data_source'', [[''uid'', ''org_id''], [''name'', ''org_id'']]),
      (''team'', [[''name'', ''org_id'']]),
      (''folder'', [[''uid''], [''title'', ''org_id'']])]"

text \<open>Lines 157-165: the loop over \<^verbatim>\<open>common_grafana_unique[table_name]\<close>.\<close>

fun add_pseudo_indexes :: "string list \<Rightarrow> string list list \<Rightarrow> index list \<Rightarrow> index list" where
  "add_pseudo_indexes existing_cols [] unique_indexes = unique_indexes"
| "add_pseudo_indexes existing_cols (check_cols # rest) unique_indexes =
     (let valid_cols = filter (\<lambda>c. c \<in> set existing_cols) check_cols in
      add_pseudo_indexes existing_cols rest
        (if length valid_cols = length check_cols
            \<and> \<not> list_ex (\<lambda>idx. set (idx_columns idx) = set valid_cols) unique_indexes
         then unique_indexes @
              [\<lparr>idx_name = ''pseudo_idx_'' @ join ''_'' valid_cols, idx_unique = 1,
                idx_columns = valid_cols\<rparr>]
         else unique_indexes))"

text \<open>
  Lines 143-165: the list \<^verbatim>\<open>unique_indexes\<close> that the loop of line 169 runs over, or what
  \<^verbatim>\<open>get_indexes\<close> (line 143) or \<^verbatim>\<open>get_table_schema\<close> (line 158) raises.
\<close>

definition unique_indexes_of :: "state \<Rightarrow> string \<Rightarrow> error + index list" where
  "unique_indexes_of st table_name =
     (case get_indexes st table_name of
        Inl e \<Rightarrow> Inl e
      | Inr indexes \<Rightarrow>
          (let unique_indexes = filter (\<lambda>idx. idx_unique idx \<noteq> 0) indexes
           in case map_of common_grafana_unique table_name of
                None \<Rightarrow> Inr unique_indexes
              | Some groups \<Rightarrow>
                  (case get_table_schema st table_name of
                     Inl e \<Rightarrow> Inl e
                   | Inr columns \<Rightarrow>
                       Inr (add_pseudo_indexes (map col_name columns) groups unique_indexes))))"

text \<open>
  Lines 175-176. A tuple of \<^verbatim>\<open>find_duplicates\<close> has one entry per column and the count
  last, so \<^verbatim>\<open>dupe[i]\<close> is in range for every column and pairing the columns with the
  tuple is \<^verbatim>\<open>enumerate\<close> with \<^verbatim>\<open>dupe[i]\<close>.
\<close>

definition cols_vals :: "string list \<Rightarrow> val list \<Rightarrow> cond list" where
  "cols_vals cols dupe = map (\<lambda>(c, v). if v \<noteq> Null then Eq c else IsNull c) (zip cols dupe)"

definition vals_of :: "val list \<Rightarrow> val list" where
  "vals_of dupe = filter (\<lambda>v. v \<noteq> Null) (butlast dupe)"

type_synonym acc = "state \<times> resolution list"

text \<open>
  A loop state is the resolver's state with the \<^verbatim>\<open>resolutions\<close> list; a function that
  can raise returns the exception, if any, with the state reached. \<open>rename_loop\<close> is the
  loop of lines 197-204 over \<^verbatim>\<open>enumerate(ids_to_fix, 1)\<close>.
\<close>

fun rename_loop :: "string \<Rightarrow> index \<Rightarrow> (nat \<times> int) list \<Rightarrow> acc \<Rightarrow> error option \<times> acc" where
  "rename_loop table_name idx [] a = (None, a)"
| "rename_loop table_name idx ((i, rid) # rest) (st, resolutions) =
     (case idx_columns idx of
        [] \<Rightarrow> (Some IndexError, (st, resolutions))
      | col_to_rename # _ \<Rightarrow>
          (case select_column (st_tables st) table_name col_to_rename [RowidEq] [IntV rid] of
             Inl e \<Rightarrow> (Some e, (st, resolutions))
           | Inr [] \<Rightarrow> (Some TypeError, (st, resolutions))
           | Inr (orig_val # _) \<Rightarrow>
               (let new_val = py_str orig_val @ ''_dup_'' @ digits i in
                case update_set (st_tables st) table_name col_to_rename [RowidEq]
                       [TextV new_val, IntV rid] of
                  Inl e \<Rightarrow> (Some e, (st, resolutions))
                | Inr db \<Rightarrow>
                    rename_loop table_name idx rest
                      (st\<lparr>st_tables := db\<rparr>,
                       resolutions @ [Renamed table_name orig_val new_val]))))"

text \<open>
  The body of the \<^verbatim>\<open>try\<close> of lines 179-204 for one tuple of duplicates. Line 187 binds
  \<^verbatim>\<open>(*vals, keep_id)\<close>; line 194 binds \<^verbatim>\<open>vals\<close> alone to the same WHERE clause.
\<close>

definition resolve_dupe :: "string \<Rightarrow> string \<Rightarrow> index \<Rightarrow> val list \<Rightarrow> acc \<Rightarrow> error option \<times> acc" where
  "resolve_dupe table_name strategy idx dupe a =
     (let (st, resolutions) = a;
          cv = cols_vals (idx_columns idx) dupe;
          vals = vals_of dupe
      in case select_rowid_first (st_tables st) table_name cv vals of
           Inl e \<Rightarrow> (Some e, a)
         | Inr None \<Rightarrow> (None, a)
         | Inr (Some keep_id) \<Rightarrow>
             if strategy = ''remove'' then
               (case delete_from (st_tables st) table_name (cv @ [RowidNe]) (vals @ [IntV keep_id]) of
                  Inl e \<Rightarrow> (Some e, a)
                | Inr (db, deleted_count) \<Rightarrow>
                    (None,
                     (st\<lparr>st_tables := db,
                         st_log := st_log st @ [Info_removed deleted_count table_name vals]\<rparr>,
                      resolutions @ [Removed deleted_count table_name vals])))
             else if strategy = ''rename'' then
               (case select_rowid (st_tables st) table_name (cv @ [RowidNe]) vals of
                  Inl e \<Rightarrow> (Some e, a)
                | Inr ids_to_fix \<Rightarrow>
                    rename_loop table_name idx (zip [1..<Suc (length ids_to_fix)] ids_to_fix) a)
             else (None, a))"

text \<open>Lines 174-206: the loop over the tuples, with the \<^verbatim>\<open>except Exception\<close> handler.\<close>

fun dupes_loop :: "string \<Rightarrow> string \<Rightarrow> index \<Rightarrow> val list list \<Rightarrow> acc \<Rightarrow> acc" where
  "dupes_loop table_name strategy idx [] a = a"
| "dupes_loop table_name strategy idx (dupe # rest) a =
     (case resolve_dupe table_name strategy idx dupe a of
        (None, a') \<Rightarrow> dupes_loop table_name strategy idx rest a'
      | (Some e, (st, resolutions)) \<Rightarrow>
          dupes_loop table_name strategy idx rest
            (st\<lparr>st_log := st_log st @ [Error_resolving table_name e]\<rparr>, resolutions))"

text \<open>Lines 169-172: the loop over \<^verbatim>\<open>unique_indexes\<close>.\<close>

fun index_loop :: "string \<Rightarrow> string \<Rightarrow> index list \<Rightarrow> acc \<Rightarrow> error option \<times> acc" where
  "index_loop table_name strategy [] a = (None, a)"
| "index_loop table_name strategy (idx # rest) (st, resolutions) =
     (case find_duplicates st table_name (idx_columns idx) of
        Inl e \<Rightarrow> (Some e, (st, resolutions))
      | Inr dupes \<Rightarrow>
          index_loop table_name strategy rest
            (if dupes \<noteq> [] then
               dupes_loop table_name strategy idx dupes
                 (st\<lparr>st_log := st_log st @ [Warning_found (length dupes) table_name (idx_columns idx)]\<rparr>,
                  resolutions)
             else (st, resolutions)))"

text \<open>
  \<^verbatim>\<open>DuplicateResolver.resolve\<close>, lines 137-211. Lines 143 and 158 are outside every
  \<^verbatim>\<open>try\<close>: what they raise leaves \<open>resolve\<close>.
\<close>

definition resolve :: "state \<Rightarrow> string \<Rightarrow> string \<Rightarrow> (error + resolution list) \<times> state" where
  "resolve st table_name strategy =
     (case unique_indexes_of st table_name of
        Inl e \<Rightarrow> (Inl e, st)
      | Inr unique_indexes \<Rightarrow>
          (case index_loop table_name strategy unique_indexes (st, []) of
             (Some e, (st', resolutions)) \<Rightarrow> (Inl e, st')
           | (None, (st', resolutions)) \<Rightarrow>
               (Inr resolutions,
                if resolutions \<noteq> [] then st'\<lparr>st_commits := Suc (st_commits st')\<rparr> else st')))"

text \<open>
  The table of the end-to-end scenario: \<^verbatim>\<open>user(id, login, email, is_admin)\<close> as
  the setup script of the tests creates it (its unique index dropped), with the three rows of the spec.
\<close>

definition user_columns :: "column list" where
  "user_columns =
     [\<lparr>col_cid = 0, col_name = ''id'', col_type = ''INTEGER'', col_notnull = 0, col_dflt_value = None, col_pk = 1\<rparr>,
      \<lparr>col_cid = 1, col_name = ''login'', col_type = ''TEXT'', col_notnull = 1, col_dflt_value = None, col_pk = 0\<rparr>,
      \<lparr>col_cid = 2, col_name = ''email'', col_type = ''TEXT'', col_notnull = 0, col_dflt_value = None, col_pk = 0\<rparr>,
      \<lparr>col_cid = 3, col_name = ''is_admin'', col_type = ''BOOLEAN'', col_notnull = 0, col_dflt_value = None, col_pk = 0\<rparr>]"

definition user_rows :: "row list" where
  "user_rows =
     [\<lparr>rowid = 1, cells = [IntV 1, TextV ''admin'', TextV ''a@x'', IntV 1]\<rparr>,
      \<lparr>rowid = 2, cells = [IntV 2, TextV ''user1'', TextV ''u@x'', IntV 0]\<rparr>,
      \<lparr>rowid = 3, cells = [IntV 3, TextV ''admin'', TextV ''a2@x'', IntV 0]\<rparr>]"

definition user_table :: table where
  "user_table = \<lparr>tbl_columns = user_columns, tbl_indexes = [], tbl_rows = user_rows, tbl_has_rowid = True\<rparr>"

definition user_db :: state where
  "user_db = \<lparr>st_tables = [(''user'', user_table)], st_commits = 0, st_log = []\<rparr>"

text \<open>
  The keeper of the spec: a row is a keeper for the columns \<open>cols\<close> when no row of the table
  with the same values in \<open>cols\<close> has a lower rowid.
\<close>

definition is_keeper :: "table \<Rightarrow> string list \<Rightarrow> row \<Rightarrow> bool" where
  "is_keeper tb cols r =
     list_all (\<lambda>r'. if key_of tb cols r' = key_of tb cols r then rowid r \<le> rowid r' else True) (tbl_rows tb)"

text \<open>
  The remove strategy of the spec: a pass over one constraint group keeps the keepers of
  the table as it stands, and the groups are taken one after the other.
\<close>

definition remove_pass :: "table \<Rightarrow> string list \<Rightarrow> table" where
  "remove_pass tb cols = tb\<lparr>tbl_rows := filter (is_keeper tb cols) (tbl_rows tb)\<rparr>"

definition remove_passes :: "table \<Rightarrow> string list list \<Rightarrow> table" where
  "remove_passes tb groups = fold (\<lambda>cols tb'. remove_pass tb' cols) groups tb"






section \<open>The target connection\<close>

text \<open>
  The MySQL server is outside the program: what the program does depends on how the server
  answers. A \<open>server\<close> answers a call, given the calls made on the connection so far, by
  raising or by returning rows; the \<open>trace\<close> records every call the program makes on the
  connection (\<^verbatim>\<open>cursor.execute\<close>, \<^verbatim>\<open>cursor.executemany\<close>, \<^verbatim>\<open>conn.commit\<close>,
  \<^verbatim>\<open>conn.rollback\<close>) and whether it returned. The connection is opened with
  \<^verbatim>\<open>autocommit = False\<close> (migrate.py line 268, main.py line 103); what the server itself
  commits is not part of the program.
\<close>

datatype mysql_call = Execute string | Executemany string "val list list" | Commit | Rollback


type_synonym trace = "(mysql_call \<times> bool) list"










section \<open>Migrator (migrate.py)\<close>

text \<open>
  \<^verbatim>\<open>self.report\<close> without its two time stamps. \<open>rp_tables\<close> is the dict
  \<^verbatim>\<open>report["tables"]\<close>; an entry of \<open>rp_errors\<close> stands for \<^verbatim>\<open>str(e)\<close>; a test result
  holds the count its message is formatted from.
\<close>

record table_report =
  tr_status :: string
  tr_validation :: "string option"

record test_result =
  test_name :: string
  test_status :: string
  test_count :: int

record report =
  rp_tables :: "(string \<times> table_report) list"
  rp_duplicate_resolutions :: "resolution list"
  rp_validation_results :: "test_result list"
  rp_errors :: "error list"
  rp_status :: string

text \<open>
  A \<^verbatim>\<open>Migrator\<close> with its MySQL connection open: the analyzer's database with the logger,
  the calls made on \<^verbatim>\<open>mysql_conn\<close>, and the report.
\<close>

record migrator =
  m_state :: state
  m_trace :: trace
  m_report :: report



definition logged :: "log_entry \<Rightarrow> migrator \<Rightarrow> migrator" where
  "logged e m = m\<lparr>m_state := (m_state m)\<lparr>st_log := st_log (m_state m) @ [e]\<rparr>\<rparr>"










text \<open>\<^verbatim>\<open>Validator.validate_counts\<close>, lines 219-227.\<close>

definition count_query :: "string \<Rightarrow> string" where
  "count_query table_name = ''SELECT COUNT(*) FROM `'' @ table_name @ ''`''"








section \<open>run_migration_task (backend/main.py)\<close>

text \<open>
  The entries of \<^verbatim>\<open>status["logs"]\<close>, by the arguments of their f-strings: lines 113, 145,
  151, 192, 197, 209 (with 205), 211, 214 and 219. \<^verbatim>\<open>status["progress"]\<close> (line 191, a
  floating-point computation) is not modelled.
\<close>

datatype task_log =
    L_resolution
  | L_removed nat string
  | L_processing string
  | L_migrated string
  | L_validating
  | L_warning string nat val
  | L_all_match
  | L_finished
  | L_critical error

record task =
  t_state :: state
  t_trace :: trace
  t_status :: string
  t_logs :: "task_log list"


definition t_log :: "task_log \<Rightarrow> task \<Rightarrow> task" where
  "t_log e tk = tk\<lparr>t_logs := t_logs tk @ [e]\<rparr>"













section \<open>Example databases, servers and options\<close>


text \<open>
  The \<open>user\<close> table with a unique index on an expression
  (\<^verbatim>\<open>CREATE UNIQUE INDEX idx_lower ON user(lower(login))\<close>): \<^verbatim>\<open>PRAGMA index_info\<close> reports
  NULL as the name of an expression column, which the f-strings of the source format as
  \<open>None\<close>; the table has no such column.
\<close>

definition expr_index :: index where
  "expr_index = \<lparr>idx_name = ''idx_lower'', idx_unique = 1, idx_columns = [''None'']\<rparr>"

definition expr_index_db :: state where
  "expr_index_db =
     \<lparr>st_tables = [(''user'', user_table\<lparr>tbl_indexes := [expr_index]\<rparr>)], st_commits = 0, st_log = []\<rparr>"













section \<open>Transaction control on the target connection\<close>

text \<open>
  A call on the MySQL connection is a statement (\<^verbatim>\<open>execute\<close>, \<^verbatim>\<open>executemany\<close>) or ends a
  transaction (\<^verbatim>\<open>commit\<close>, \<^verbatim>\<open>rollback\<close>). \<open>count_reads\<close> are the validation reads of a
  list of tables, each answered.
\<close>

fun is_statement :: "mysql_call \<Rightarrow> bool" where
  "is_statement (Execute q) = True"
| "is_statement (Executemany q rows) = True"
| "is_statement Commit = False"
| "is_statement Rollback = False"

definition statements :: "trace \<Rightarrow> bool" where
  "statements tr = list_all (\<lambda>p. is_statement (fst p)) tr"

definition count_reads :: "string list \<Rightarrow> trace" where
  "count_reads tables = map (\<lambda>t. (Execute (count_query t), True)) tables"

chapter \<open>Properties\<close>

section \<open>Properties of TypeMapper\<close>

lemma backend_map_type_eq: "backend_map_type s = map_type s c t"
  by (simp add: backend_map_type_def map_type_def)

text \<open>
  Claim C1. The claim expects every integer-family type string to reach the rule of its own
  width (TINYINT to TINYINT, ..., UNSIGNED BIG INT to BIGINT UNSIGNED). In the table the key
  \<open>INT\<close> stands second, before all of them, and is contained in each of the seven
  strings, so the first rule whose key is contained in the input is the \<open>INT\<close> rule:
  all seven map to \<open>INT\<close>, and the rules of their own width are never reached.
\<close>

theorem map_type_integer_family:
  "map_type ''TINYINT'' c t = ''INT'' \<and>
   map_type ''SMALLINT'' c t = ''INT'' \<and>
   map_type ''MEDIUMINT'' c t = ''INT'' \<and>
   map_type ''BIGINT'' c t = ''INT'' \<and>
   map_type ''INT2'' c t = ''INT'' \<and>
   map_type ''INT8'' c t = ''INT'' \<and>
   map_type ''UNSIGNED BIG INT'' c t = ''INT''"
  by (simp add: map_type_def upper_def upper_char_def MAPPING_def sublist_code)

text \<open>
  Claim C6, as amended. \<open>map_type\<close> is a function of its input alone (a HOL function:
  it returns a value on every string and the same value on every call), and every input
  takes exactly one of four mutually exclusive paths, decided on the uppercased input
  \<open>upper s\<close>: it contains VARCHAR and an opening parenthesis, and the uppercased input is
  returned; it contains VARCHAR and no opening parenthesis, and VARCHAR(255) is returned; it
  does not contain VARCHAR, and the value of the first rule of the table whose key it
  contains is returned; no rule matches, and LONGTEXT is returned.
\<close>

theorem map_type_match_path:
  "(sublist ''VARCHAR'' (upper s) \<and> sublist ''('' (upper s) \<and> map_type s c t = upper s) \<or>
   (sublist ''VARCHAR'' (upper s) \<and> \<not> sublist ''('' (upper s) \<and> map_type s c t = ''VARCHAR(255)'') \<or>
   (\<not> sublist ''VARCHAR'' (upper s) \<and>
      (\<exists>i<length MAPPING. sublist (fst (MAPPING ! i)) (upper s) \<and>
          (\<forall>j<i. \<not> sublist (fst (MAPPING ! j)) (upper s)) \<and> map_type s c t = snd (MAPPING ! i))) \<or>
   (\<not> sublist ''VARCHAR'' (upper s) \<and> (\<forall>e\<in>set MAPPING. \<not> sublist (fst e) (upper s)) \<and>
      map_type s c t = ''LONGTEXT'')"
proof (cases "sublist ''VARCHAR'' (upper s)")
  case True
  then show ?thesis by (simp add: map_type_def Let_def)
next
  case False
  show ?thesis
  proof (cases "find (\<lambda>(key, v). sublist key (upper s)) MAPPING")
    case None
    then have "\<forall>e\<in>set MAPPING. \<not> sublist (fst e) (upper s)"
      by (auto simp: find_None_iff)
    moreover have "map_type s c t = ''LONGTEXT''"
      using False None by (simp add: map_type_def Let_def)
    ultimately show ?thesis using False by blast
  next
    case (Some e)
    then obtain i where i: "i < length MAPPING" "sublist (fst (MAPPING ! i)) (upper s)"
      "e = MAPPING ! i" "\<forall>j<i. \<not> sublist (fst (MAPPING ! j)) (upper s)"
      unfolding find_Some_iff by (auto simp: case_prod_beta)
    have "map_type s c t = snd (MAPPING ! i)"
      using False Some i(3) by (simp add: map_type_def Let_def case_prod_beta)
    with i False show ?thesis by blast
  qed
qed

text \<open>The rule-table path of C6 at the input \<open>bigint\<close>.\<close>

theorem map_type_match_path_witness:
  "\<not> sublist ''VARCHAR'' (upper ''bigint'') \<and> map_type ''bigint'' [] [] \<noteq> ''LONGTEXT'' \<and>
   (\<exists>i<length MAPPING. sublist (fst (MAPPING ! i)) (upper ''bigint'') \<and>
       map_type ''bigint'' [] [] = snd (MAPPING ! i))"
proof -
  have a: "\<not> sublist ''VARCHAR'' (upper ''bigint'')" by code_simp
  have b: "map_type ''bigint'' [] [] \<noteq> ''LONGTEXT''" by code_simp
  from map_type_match_path [of "''bigint''" "[]" "[]"] a b show ?thesis by blast
qed

text \<open>
  Claim C6 as stated says that on the VARCHAR path "the input is returned unchanged". The
  source rebinds \<open>sqlite_type\<close> to its uppercase form first (line 105) and returns that:
  the lower-case input \<open>varchar(10)\<close> comes back as \<open>VARCHAR(10)\<close>.
\<close>

theorem map_type_varchar_counterexample:
  "sublist ''VARCHAR'' (upper ''varchar(10)'') \<and> sublist ''('' ''varchar(10)'' \<and>
   map_type ''varchar(10)'' [] [] = ''VARCHAR(10)'' \<and> map_type ''varchar(10)'' [] [] \<noteq> ''varchar(10)''"
  by (simp add: map_type_def upper_def upper_char_def MAPPING_def sublist_code)

section \<open>Properties of the DDL synthesis\<close>

lemma suffix_auto_increment_space: "\<not> suffix ''AUTO_INCREMENT'' (xs @ '' '')"
  by (auto simp: suffix_def)

text \<open>
  Claim C5, as amended. In both entry points the emitted column definition ends with
  AUTO_INCREMENT exactly when the column's pk flag is set and its mapped type, uppercased,
  contains INT; the number of primary-key columns of the table plays no part.
\<close>

theorem auto_increment_iff:
  "(suffix ''AUTO_INCREMENT'' (mysql_col t col) \<longleftrightarrow>
      col_pk col \<noteq> 0 \<and> sublist ''INT'' (upper (map_type (col_type col) (col_name col) t))) \<and>
   (suffix ''AUTO_INCREMENT'' (backend_mysql_col col) \<longleftrightarrow>
      col_pk col \<noteq> 0 \<and> sublist ''INT'' (upper (backend_map_type (col_type col))))"
proof -
  have yes: "suffix ''AUTO_INCREMENT'' (xs @ '' '' @ ''AUTO_INCREMENT'')" for xs :: string
    by (metis append_assoc suffixI)
  have no: "\<not> suffix ''AUTO_INCREMENT'' (xs @ '' '' @ [])" for xs :: string
    using suffix_auto_increment_space [of xs] by simp
  have m: "suffix ''AUTO_INCREMENT'' (mysql_col t col) \<longleftrightarrow>
      col_pk col \<noteq> 0 \<and> sublist ''INT'' (upper (map_type (col_type col) (col_name col) t))"
  proof -
    obtain xs where xs: "mysql_col t col = xs @ '' '' @ extra col (map_type (col_type col) (col_name col) t)"
      by (simp add: mysql_col_def Let_def)
    show ?thesis unfolding xs using yes [of xs] no [of xs] by (simp add: extra_def)
  qed
  have b: "suffix ''AUTO_INCREMENT'' (backend_mysql_col col) \<longleftrightarrow>
      col_pk col \<noteq> 0 \<and> sublist ''INT'' (upper (backend_map_type (col_type col)))"
  proof -
    obtain xs where xs: "backend_mysql_col col = xs @ '' '' @ extra col (backend_map_type (col_type col))"
      by (simp add: backend_mysql_col_def Let_def)
    show ?thesis unfolding xs using yes [of xs] no [of xs] by (simp add: extra_def)
  qed
  from m b show ?thesis by blast
qed

text \<open>
  Claim C5 as stated says that no column carries AUTO_INCREMENT when the primary key is
  composite. For the two-column key of \<open>composite_pk_columns\<close> both column definitions
  carry it, in both entry points.
\<close>

theorem composite_pk_counterexample:
  "pk_cols composite_pk_columns = [''a'', ''b''] \<and>
   map (mysql_col ''t'') composite_pk_columns =
     [''`a` INT NULL  AUTO_INCREMENT'', ''`b` INT NULL  AUTO_INCREMENT''] \<and>
   map backend_mysql_col composite_pk_columns =
     [''`a` INT NULL AUTO_INCREMENT'', ''`b` INT NULL AUTO_INCREMENT'']"
  by code_simp

section \<open>Properties of the DuplicateResolver\<close>

subsection \<open>Detection\<close>

lemma prepare_cases:
  "prepare db t cols u n conds ps = Inl OperationalError \<or>
   prepare db t cols u n conds ps = Inl ProgrammingError \<or>
   (\<exists>tb. prepare db t cols u n conds ps = Inr tb \<and> map_of db t = Some tb)"
  by (auto simp: prepare_def split: option.splits)



lemma count_list_distinct: "distinct xs \<Longrightarrow> count_list xs x \<le> 1"
  by (induction xs) auto

lemma select_group_having_distinct:
  assumes "map_of db t = Some tb" "distinct (map (key_of tb cols) (tbl_rows tb))"
  shows "select_group_having db t cols = Inl OperationalError \<or> select_group_having db t cols = Inr []"
proof -
  have "filter (\<lambda>k. 1 < count_list (map (key_of tb cols) (tbl_rows tb)) k)
          (remdups (map (key_of tb cols) (tbl_rows tb))) = []"
    using count_list_distinct [OF assms(2)] by (auto simp: filter_empty_conv not_less)
  then show ?thesis using assms(1)
    by (auto simp: select_group_having_def prepare_def Let_def split: option.splits)
qed

lemma find_duplicates_no_violation:
  assumes "\<And>tb. map_of (st_tables st) t = Some tb \<Longrightarrow> distinct (map (key_of tb cols) (tbl_rows tb))"
  shows "find_duplicates st t cols = Inr []"
proof (cases "map_of (st_tables st) t")
  case None
  then show ?thesis by (simp add: find_duplicates_def select_group_having_def prepare_def)
next
  case (Some tb)
  from select_group_having_distinct [OF Some assms [OF Some]]
  show ?thesis by (auto simp: find_duplicates_def)
qed


subsection \<open>The WHERE clause of one tuple of duplicates\<close>

lemma is_keeper_iff:
  "is_keeper tb cols r \<longleftrightarrow> (\<forall>r'\<in>set (tbl_rows tb). key_of tb cols r' = key_of tb cols r \<longrightarrow> rowid r \<le> rowid r')"
  by (auto simp: is_keeper_def list_all_iff)

lemma key_of_rows_update [simp]: "key_of (tb\<lparr>tbl_rows := R\<rparr>) cols r = key_of tb cols r"
  by (simp add: key_of_def cell_def col_pos_def col_names_def)







lemma lowest_None [simp]: "lowest xs = None \<longleftrightarrow> xs = []"
  by (simp add: lowest_def split: list.splits)














subsection \<open>One pass of the remove strategy over a constraint group, and all passes\<close>

lemma key_of_rows_update_fun [simp]: "key_of (tb\<lparr>tbl_rows := R\<rparr>) cols = key_of tb cols"
  by (rule ext) simp




subsection \<open>One pass of the remove strategy in backend/main.py\<close>


lemma count_list_pos: "0 < count_list xs x \<Longrightarrow> x \<in> set xs"
  by (induction xs) (auto split: if_splits)


subsection \<open>The remove strategy: all passes\<close>

lemma remove_passes_Nil [simp]: "remove_passes tb [] = tb"
  by (simp add: remove_passes_def)

lemma remove_passes_Cons [simp]: "remove_passes tb (g # gs) = remove_passes (remove_pass tb g) gs"
  by (simp add: remove_passes_def)


lemma remove_pass_fields [simp]:
  "tbl_has_rowid (remove_pass tb g) = tbl_has_rowid tb"
  "col_names (remove_pass tb g) = col_names tb"
  "key_of (remove_pass tb g) cols = key_of tb cols"
  "tbl_indexes (remove_pass tb g) = tbl_indexes tb"
  "tbl_columns (remove_pass tb g) = tbl_columns tb"
  by (simp_all add: remove_pass_def col_names_def)

lemma remove_passes_fields [simp]:
  "tbl_has_rowid (remove_passes tb gs) = tbl_has_rowid tb"
  "col_names (remove_passes tb gs) = col_names tb"
  "key_of (remove_passes tb gs) cols = key_of tb cols"
  "tbl_indexes (remove_passes tb gs) = tbl_indexes tb"
  "tbl_columns (remove_passes tb gs) = tbl_columns tb"
  by (induction gs arbitrary: tb; simp)+





lemma keeper_exists:
  assumes "r \<in> set (tbl_rows tb)"
  shows "\<exists>r'\<in>set (tbl_rows (remove_pass tb cols)). key_of tb cols r' = key_of tb cols r"
proof -
  let ?S = "{x \<in> set (tbl_rows tb). key_of tb cols x = key_of tb cols r}"
  have fin: "finite (rowid ` ?S)" by simp
  have ne: "rowid ` ?S \<noteq> {}" using assms by auto
  from Min_in [OF fin ne] obtain r' where r': "r' \<in> ?S" "rowid r' = Min (rowid ` ?S)" by auto
  have "is_keeper tb cols r'"
    unfolding is_keeper_iff
  proof (intro ballI impI)
    fix x assume "x \<in> set (tbl_rows tb)" "key_of tb cols x = key_of tb cols r'"
    then have "rowid x \<in> rowid ` ?S" using r'(1) by auto
    from Min_le [OF fin this] show "rowid r' \<le> rowid x" using r'(2) by simp
  qed
  then show ?thesis using r'(1) by (auto simp: remove_pass_def)
qed





subsection \<open>The constraint groups the code runs over\<close>








subsection \<open>The remove strategy on a table\<close>






subsection \<open>Claims about detection and about tables without violations\<close>

text \<open>
  Claim C10. \<open>find_duplicates\<close> returns the empty list for an empty column list and when the
  grouping query raises \<^verbatim>\<open>sqlite3.OperationalError\<close>, exactly as it does for a table in which no
  combination occurs twice; it returns a value only and has no access to the logger or to a
  report, and a caller that receives the empty list goes on to the next index with its state
  (the log included) and its resolutions untouched.
\<close>

theorem find_duplicates_silent:
  "find_duplicates st t [] = Inr [] \<and>
   (select_group_having (st_tables st) t cols = Inl OperationalError \<longrightarrow>
      find_duplicates st t cols = Inr []) \<and>
   (map_of (st_tables st) t = Some tb \<and> distinct (map (key_of tb cols) (tbl_rows tb)) \<longrightarrow>
      find_duplicates st t cols = Inr []) \<and>
   (find_duplicates st t (idx_columns idx) = Inr [] \<longrightarrow>
      index_loop t s [idx] (st, res) = (None, (st, res)))"
proof -
  have a: "find_duplicates st t [] = Inr []" by (simp add: find_duplicates_def)
  have b: "find_duplicates st t cols = Inr []"
    if "select_group_having (st_tables st) t cols = Inl OperationalError"
    using that by (simp add: find_duplicates_def)
  have c: "find_duplicates st t cols = Inr []"
    if "map_of (st_tables st) t = Some tb \<and> distinct (map (key_of tb cols) (tbl_rows tb))"
    using that by (intro find_duplicates_no_violation) auto
  have d: "index_loop t s [idx] (st, res) = (None, (st, res))"
    if "find_duplicates st t (idx_columns idx) = Inr []"
    using that by simp
  from a b c d show ?thesis by blast
qed

text \<open>
  The hypotheses of C10 at the unique index on an expression: the grouping query names the
  column \<open>None\<close>, which the table does not have.
\<close>

theorem find_duplicates_silent_witness:
  "select_group_having (st_tables expr_index_db) ''user'' [''None''] = Inl OperationalError \<and>
   find_duplicates expr_index_db ''user'' [''None''] = Inr [] \<and>
   index_loop ''user'' ''remove'' [expr_index] (expr_index_db, []) = (None, (expr_index_db, []))"
proof -
  have h: "select_group_having (st_tables expr_index_db) ''user'' [''None''] = Inl OperationalError"
    by code_simp
  have i: "idx_columns expr_index = [''None'']" by code_simp
  from find_duplicates_silent [of expr_index_db "''user''" "[''None'']" user_table expr_index "''remove''" "[]"]
    h i show ?thesis by simp
qed




subsection \<open>The rename strategy\<close>

text \<open>
  Claim C2. The claim expects row 3 of the \<open>user\<close> table to get the login \<open>admin_dup_1\<close> and
  a log entry \<open>admin -> admin_dup_1\<close>. The statement of line 194 has one placeholder more
  (\<^verbatim>\<open>rowid != ?\<close>) than the parameters it is given (\<^verbatim>\<open>vals\<close>, where line 187 passes
  \<^verbatim>\<open>(*vals, keep_id)\<close>): it raises \<^verbatim>\<open>ProgrammingError\<close>, the handler of line 205 logs it,
  and the table is left as it was, with an empty resolution list and no commit.
\<close>

theorem rename_example_unresolved:
  "resolve user_db ''user'' ''rename'' =
     (Inr [],
      user_db\<lparr>st_log := [Warning_found 1 ''user'' [''login''],
                          Error_resolving ''user'' ProgrammingError]\<rparr>)"
  by code_simp

subsection \<open>Failures during resolution\<close>







section \<open>Properties of the runs\<close>

subsection \<open>The calls of Migrator.run on the target connection\<close>


lemma statements_simps [simp]:
  "statements []" "statements (p # tr) = (is_statement (fst p) \<and> statements tr)"
  "statements (tr @ tr') = (statements tr \<and> statements tr')"
  by (auto simp: statements_def)

lemma statements_count_reads [simp]: "statements (count_reads tables)"
  by (induction tables) (auto simp: count_reads_def)















subsection \<open>The calls of run_migration_task on the target connection\<close>


lemma t_log_fields [simp]:
  "t_trace (t_log e tk) = t_trace tk" "t_state (t_log e tk) = t_state tk"
  "t_status (t_log e tk) = t_status tk"
  by (simp_all add: t_log_def)












subsection \<open>Transaction control of a run\<close>



subsection \<open>Validation of the row counts\<close>

lemma logged_fields [simp]:
  "m_trace (logged e m) = m_trace m" "m_report (logged e m) = m_report m"
  "st_tables (m_state (logged e m)) = st_tables (m_state m)"
  "st_log (m_state (logged e m)) = st_log (m_state m) @ [e]"
  by (simp_all add: logged_def)










end
